theory Spec2Isabelle
  imports Complex_Main
begin

section \<open>Errors\<close>

text \<open>
  Python exceptions raised by the modelled code, as values. \<open>AssertionError\<close> is what a
  failed \<^verbatim>\<open>assert\<close> raises; \<open>AttributeError\<close> carries the attribute name that was
  looked up and not found, \<open>ImportError\<close> the name that could not be imported.
\<close>

datatype error = AssertionError | AttributeError string | ImportError string

section \<open>Constraint (src/PEPit/constraint.py)\<close>

text \<open>
  The class \<^verbatim>\<open>Constraint\<close> has four instance attributes, all assigned in
  \<^verbatim>\<open>__init__\<close>. The expression is stored as it is given (no check of its type), so the
  record is polymorphic in it. Python floats are read as reals; \<^verbatim>\<open>None\<close> is \<open>None\<close>.
\<close>

record 'e Constraint =
  counter :: nat
  expression :: 'e
  equality_or_inequality :: string
  dual_variable_value :: "real option"

text \<open>
  \<^verbatim>\<open>Constraint.__init__(self, expression, equality_or_inequality)\<close>. The class attribute
  \<^verbatim>\<open>Constraint.counter\<close> is the state: it is passed in and returned. The statements are
  kept in the order of the source: the counter is read and incremented (lines 55-56)
  before the assertion on the tag (line 62), so the incremented counter is returned on
  both branches.
\<close>

definition Constraint_init :: "nat \<Rightarrow> 'e \<Rightarrow> string \<Rightarrow> (error + 'e Constraint) \<times> nat" where
  "Constraint_init Constraint_counter expr tag =
     (let self_counter = Constraint_counter;
          Constraint_counter = Constraint_counter + 1
      in if tag \<in> {''equality'', ''inequality''}
         then (Inr \<lparr>counter = self_counter, expression = expr,
                    equality_or_inequality = tag, dual_variable_value = None\<rparr>,
               Constraint_counter)
         else (Inl AssertionError, Constraint_counter))"





section \<open>The package file src/PEPit/primitive_steps/__init__.py\<close>

text \<open>
  Lines 1-9 are nine statements \<^verbatim>\<open>from .m import m\<close>; each binds the name \<open>m\<close> in the
  package's namespace (the submodule of the same name is bound first and then
  replaced by the function). The submodules themselves are not part of the sources:
  that the nine statements run is taken as given.
\<close>

definition imported_names :: "string list" where
  "imported_names =
     [''bregman_gradient_step'', ''bregman_proximal_step'', ''exact_linesearch_step'',
      ''fixed_point'', ''inexact_gradient'', ''inexact_gradient_step'',
      ''inexact_proximal_step'', ''linear_optimization_step'', ''proximal_step'']"

text \<open>Lines 12-21: the list \<^verbatim>\<open>__all__\<close>, entry by entry.\<close>

definition all_names :: "string list" where
  "all_names =
     [''bregman_gradient_step'', ''bregman_proximal_step'', ''exact_linesearch_step'',
      ''fixed_point.py'', ''inexact_gradient.py'', ''inexact_gradient_step.py'',
      ''inexact_proximal_step.py'', ''linear_optimization_step.py'', ''proximal_step'']"

text \<open>
  Python's \<^verbatim>\<open>from package import *\<close> for a package that defines \<^verbatim>\<open>__all__\<close>: every entry
  of the list is looked up as an attribute of the package, in order, and the first
  entry that is not bound raises \<^verbatim>\<open>AttributeError\<close>; when all are bound, the importer's
  namespace receives exactly these names. (For an entry that is not bound the import
  system first tries to import a submodule of that name; for \<open>fixed_point.py\<close> that is
  a module \<open>py\<close> inside the module \<open>fixed_point\<close>, which is not a package, and the
  failure of that attempt is ignored.) \<^verbatim>\<open>from package import name\<close> succeeds when the
  name is bound in the package, and raises \<^verbatim>\<open>ImportError\<close> otherwise.
\<close>

definition import_star :: "string list \<Rightarrow> string list \<Rightarrow> error + string list" where
  "import_star namespace all_list =
     (case find (\<lambda>name. name \<notin> set namespace) all_list of
        Some name \<Rightarrow> Inl (AttributeError name)
      | None \<Rightarrow> Inr all_list)"

definition import_name :: "string list \<Rightarrow> string \<Rightarrow> error + string" where
  "import_name namespace name =
     (if name \<in> set namespace then Inr name else Inl (ImportError name))"

section \<open>Points, function values and functions\<close>

text \<open>
  The class counters that the test's \<^verbatim>\<open>tearDown\<close> resets (src/tests/test\_constraints.py,
  lines 93-95) are class attributes, shared by all objects: \<open>Point.counter\<close>,
  \<open>Expression.counter\<close> and \<open>Function.counter\<close>. They are the state that every operation
  below takes and returns. \<open>next_ref\<close> is the allocator of object identities: Python
  gives every new object an identity of its own, and the spec compares Points by
  identity (``the same Point object'').
\<close>

record counters =
  Point_counter :: nat
  Expression_counter :: nat
  Function_counter :: nat
  next_ref :: nat

definition tearDown :: "counters \<Rightarrow> counters" where
  "tearDown s = s\<lparr>Point_counter := 0, Expression_counter := 0, Function_counter := 0\<rparr>"

text \<open>
  Modelled from the spec: the class Point (point.py is not under src). Spec section 3:
  a Point is a leaf (a basis vector) or a composite, stored as a flat mapping from leaf
  identity to a real coefficient; a leaf's identity is its creation index. The test
  (lines 61-63) fixes what the attribute \<open>counter\<close> holds: the creation index for a leaf
  (\<open>xs.counter\<close> is 0, \<open>x0.counter\<close> is 1) and \<^verbatim>\<open>None\<close> for a composite (\<open>x1.counter\<close>).
  \<open>ref\<close> is the object's identity.
\<close>

record Point =
  ref :: nat
  counter :: "nat option"
  decomposition_dict :: "(nat \<times> real) list"

text \<open>
  Modelled from the spec: \<open>leaf()\<close> of section 4.1 (point.py is not under src). A new
  leaf takes the current value of the Point counter and advances it.
\<close>

definition Point_leaf :: "counters \<Rightarrow> Point \<times> counters" where
  "Point_leaf s =
     (\<lparr>ref = next_ref s, counter = Some (Point_counter s),
       decomposition_dict = [(Point_counter s, 1)]\<rparr>,
      s\<lparr>Point_counter := Point_counter s + 1, next_ref := next_ref s + 1\<rparr>)"

text \<open>
  Modelled from the spec: \<open>combination(coeffs)\<close> of section 4.1 (point.py is not under
  src): each operand's own leaf map is substituted, scaled, and merged by summation
  over shared leaves. The dictionary is an association list in insertion order;
  \<open>dict_add d k v\<close> is \<^verbatim>\<open>d[k] = d.get(k, 0) + v\<close>. The result is a composite: it has no
  creation index and the Point counter stays as it is (the test finds \<open>x0.counter\<close> equal
  to 1 although the zero gradient of the stationary point was created before it).
\<close>

fun dict_add :: "(nat \<times> real) list \<Rightarrow> nat \<Rightarrow> real \<Rightarrow> (nat \<times> real) list" where
  "dict_add [] k v = [(k, v)]"
| "dict_add ((k', v') # d) k v =
     (if k' = k then (k', v' + v) # d else (k', v') # dict_add d k v)"

definition merge_scaled ::
  "(nat \<times> real) list \<Rightarrow> real \<Rightarrow> (nat \<times> real) list \<Rightarrow> (nat \<times> real) list" where
  "merge_scaled acc a d = foldl (\<lambda>acc (k, v). dict_add acc k (a * v)) acc d"

definition flatten :: "(Point \<times> real) list \<Rightarrow> (nat \<times> real) list" where
  "flatten coeffs = foldl (\<lambda>acc (p, a). merge_scaled acc a (decomposition_dict p)) [] coeffs"

definition Point_combination :: "counters \<Rightarrow> (Point \<times> real) list \<Rightarrow> Point \<times> counters" where
  "Point_combination s coeffs =
     (\<lparr>ref = next_ref s, counter = None, decomposition_dict = flatten coeffs\<rparr>,
      s\<lparr>next_ref := next_ref s + 1\<rparr>)"

text \<open>
  Modelled from the spec: the arithmetic of section 4.1, ``built atop combination''
  (point.py is not under src): \<open>p + q\<close>, \<open>p - q\<close>, \<open>a * p\<close> and \<open>- p\<close>.
\<close>

definition Point_add :: "counters \<Rightarrow> Point \<Rightarrow> Point \<Rightarrow> Point \<times> counters" where
  "Point_add s p q = Point_combination s [(p, 1), (q, 1)]"

definition Point_sub :: "counters \<Rightarrow> Point \<Rightarrow> Point \<Rightarrow> Point \<times> counters" where
  "Point_sub s p q = Point_combination s [(p, 1), (q, - 1)]"

definition Point_rmul :: "counters \<Rightarrow> real \<Rightarrow> Point \<Rightarrow> Point \<times> counters" where
  "Point_rmul s a p = Point_combination s [(p, a)]"

definition Point_neg :: "counters \<Rightarrow> Point \<Rightarrow> Point \<times> counters" where
  "Point_neg s p = Point_combination s [(p, - 1)]"

text \<open>
  Modelled from the spec: the class Expression (expression.py is not under src), the
  triple of section 3: constant, linear part over function-value atoms, quadratic part
  over unordered pairs of leaves. Only the creation of an atom is needed here: a
  function value returned by an oracle.
\<close>

record Expression =
  counter :: "nat option"
  constant_part :: real
  linear :: "(nat \<times> real) list"
  quadratic :: "((nat \<times> nat) \<times> real) list"

definition Expression_leaf :: "counters \<Rightarrow> Expression \<times> counters" where
  "Expression_leaf s =
     (\<lparr>counter = Some (Expression_counter s), constant_part = 0,
       linear = [(Expression_counter s, 1)], quadratic = []\<rparr>,
      s\<lparr>Expression_counter := Expression_counter s + 1\<rparr>)"

text \<open>
  Modelled from the spec: the class Function (function.py is not under src), section 3:
  the ordered list of oracle calls (point, gradient or subgradient, value atom).
  \<open>reuse_gradient\<close> says that the class is differentiable (the keyword of
  \<^verbatim>\<open>declare_function\<close> in improved\_interior\_algorithm.py, line 98). Class parameters,
  the interpolation rule and sums of functions are left out.
\<close>

record Function =
  counter :: nat
  reuse_gradient :: bool
  list_of_points :: "(Point \<times> Point \<times> Expression) list"

text \<open>
  Modelled from the spec: \<open>declare_function\<close> of the Problem (pep.py is not under src);
  the test finds \<open>func.counter\<close> equal to 0 for the first function declared.
\<close>

definition declare_function :: "counters \<Rightarrow> bool \<Rightarrow> Function \<times> counters" where
  "declare_function s reuse =
     (\<lparr>counter = Function_counter s, reuse_gradient = reuse, list_of_points = []\<rparr>,
      s\<lparr>Function_counter := Function_counter s + 1\<rparr>)"

text \<open>
  Modelled from the spec: \<open>set_initial_point\<close> of the Problem (pep.py is not under src):
  an initial point is a leaf.
\<close>

definition set_initial_point :: "counters \<Rightarrow> Point \<times> counters" where
  "set_initial_point s = Point_leaf s"

text \<open>
  Modelled from the spec: the lookup of a recorded oracle call (function.py is not
  under src). Section 4.3 speaks of ``the same Point object'': a recorded call is found
  by the identity of its point, not by its value.
\<close>

definition same_object :: "Point \<Rightarrow> Point \<times> Point \<times> Expression \<Rightarrow> bool" where
  "same_object point = (\<lambda>(x, g, v). Point.ref x = Point.ref point)"

text \<open>
  Modelled from the spec: \<open>oracle(point)\<close> of section 4.3 (function.py is not under
  src). For a differentiable class a call at a Point object that is already recorded
  returns the recorded gradient and value. For a class that is not differentiable a
  call at a recorded point allocates a fresh subgradient; the spec does not say what
  value is returned then, and the model returns the recorded one. At a point that is
  not recorded, a new leaf gradient and a new value atom are allocated and recorded.
\<close>

definition Function_oracle ::
  "counters \<Rightarrow> Function \<Rightarrow> Point \<Rightarrow> (Point \<times> Expression) \<times> Function \<times> counters" where
  "Function_oracle s f point =
     (case find (same_object point) (list_of_points f) of
        Some (x, g, v) \<Rightarrow>
          if reuse_gradient f then ((g, v), f, s)
          else
            (let (g', s1) = Point_leaf s
             in ((g', v), f\<lparr>list_of_points := list_of_points f @ [(point, g', v)]\<rparr>, s1))
      | None \<Rightarrow>
          (let (g', s1) = Point_leaf s;
               (v', s2) = Expression_leaf s1
           in ((g', v'), f\<lparr>list_of_points := list_of_points f @ [(point, g', v')]\<rparr>, s2)))"

text \<open>
  Modelled from the spec: \<open>gradient(point)\<close>, the first component of the oracle's answer
  (function.py is not under src; the test calls it at line 37).
\<close>

definition Function_gradient ::
  "counters \<Rightarrow> Function \<Rightarrow> Point \<Rightarrow> Point \<times> Function \<times> counters" where
  "Function_gradient s f point =
     (case Function_oracle s f point of ((g, v), f', s') \<Rightarrow> (g, f', s'))"

text \<open>
  Modelled from the spec: \<open>stationary_point()\<close> of section 4.3 (function.py is not under
  src): a new leaf whose recorded gradient is the zero Point (the empty combination),
  with a new value atom.
\<close>

definition Function_stationary_point :: "counters \<Rightarrow> Function \<Rightarrow> Point \<times> Function \<times> counters" where
  "Function_stationary_point s f =
     (let (xs, s1) = Point_leaf s;
          (g, s2) = Point_combination s1 [];
          (fs, s3) = Expression_leaf s2
      in (xs, f\<lparr>list_of_points := list_of_points f @ [(xs, g, fs)]\<rparr>, s3))"

text \<open>
  Any sequence of later calls on one function. Between two calls the program may
  create Points, Expressions, Constraints and other Functions and call other oracles,
  so every call comes with the state of the counters in which it is made. The answers
  of the calls are dropped; the function is what the calls leave.
\<close>

datatype function_call = Oracle counters Point | StationaryPoint counters

fun function_calls :: "Function \<Rightarrow> function_call list \<Rightarrow> Function" where
  "function_calls f [] = f"
| "function_calls f (Oracle s p # calls) =
     (case Function_oracle s f p of (_, f', _) \<Rightarrow> function_calls f' calls)"
| "function_calls f (StationaryPoint s # calls) =
     (case Function_stationary_point s f of (_, f', _) \<Rightarrow> function_calls f' calls)"

text \<open>
  Any sequence of operations that create a Point: a new leaf (an initial point, a
  stationary point, the gradient of a new oracle call) or one of the arithmetic
  operations.
\<close>

datatype point_cmd =
    NewLeaf
  | Add Point Point
  | Sub Point Point
  | Rmul real Point
  | Neg Point
  | Combination "(Point \<times> real) list"

fun exec_point_cmd :: "counters \<Rightarrow> point_cmd \<Rightarrow> Point \<times> counters" where
  "exec_point_cmd s NewLeaf = Point_leaf s"
| "exec_point_cmd s (Add p q) = Point_add s p q"
| "exec_point_cmd s (Sub p q) = Point_sub s p q"
| "exec_point_cmd s (Rmul a p) = Point_rmul s a p"
| "exec_point_cmd s (Neg p) = Point_neg s p"
| "exec_point_cmd s (Combination coeffs) = Point_combination s coeffs"

fun run_point_cmds :: "counters \<Rightarrow> point_cmd list \<Rightarrow> Point list \<times> counters" where
  "run_point_cmds s [] = ([], s)"
| "run_point_cmds s (c # cmds) =
     (case exec_point_cmd s c of
        (p, s') \<Rightarrow> (case run_point_cmds s' cmds of (ps, s'') \<Rightarrow> (p # ps, s'')))"

text \<open>
  \<^verbatim>\<open>TestConstraints.setUp\<close> (src/tests/test\_constraints.py, lines 14-40), the statements
  that create a Function or a Point: the declaration of the function (line 25), its
  stationary point (line 28), the initial point (line 31), the difference \<open>x0 - xs\<close> of
  the initial condition (line 34) and the gradient step (line 37). The squares, the
  comparison and \<open>solve\<close> are left out. The result is \<open>(func, xs, x0, x1)\<close>.
\<close>

definition setUp :: "counters \<Rightarrow> Function \<times> Point \<times> Point \<times> Point" where
  "setUp s =
     (let L = 1; gamma = 1 / L;
          (func, s) = declare_function s True;
          (xs, func, s) = Function_stationary_point s func;
          (x0, s) = set_initial_point s;
          (d, s) = Point_sub s x0 xs;
          (g0, func, s) = Function_gradient s func x0;
          (step, s) = Point_rmul s gamma g0;
          (x1, s) = Point_sub s x0 step
      in (func, xs, x0, x1))"

section \<open>Properties of Constraint construction\<close>

lemma Constraint_init_ok:
  "t \<in> {''equality'', ''inequality''} \<Longrightarrow>
   Constraint_init n e t =
     (Inr \<lparr>Constraint.counter = n, expression = e, equality_or_inequality = t,
           dual_variable_value = None\<rparr>, Suc n)"
  by (simp add: Constraint_init_def)

lemma Constraint_init_fails:
  "t \<notin> {''equality'', ''inequality''} \<Longrightarrow> Constraint_init n e t = (Inl AssertionError, Suc n)"
  by (simp add: Constraint_init_def)

text \<open>
  C1. Construction with a tag other than the exact strings \<open>equality\<close> or \<open>inequality\<close>
  fails with \<open>AssertionError\<close>; with either of the two it succeeds; so every Constraint
  that was constructed carries one of the two tags.
\<close>

theorem Constraint_init_tag_check:
  "(t \<notin> {''equality'', ''inequality''} \<longrightarrow> fst (Constraint_init n e t) = Inl AssertionError) \<and>
   (t \<in> {''equality'', ''inequality''} \<longrightarrow> (\<exists>c. fst (Constraint_init n e t) = Inr c)) \<and>
   (\<forall>c. fst (Constraint_init n e t) = Inr c \<longrightarrow>
        equality_or_inequality c \<in> {''equality'', ''inequality''})"
  by (auto simp add: Constraint_init_def)

theorem Constraint_init_tag_check_witness:
  "fst (Constraint_init 0 (0::int) ''equal'') = Inl AssertionError \<and>
   fst (Constraint_init 0 (0::int) ''Equality'') = Inl AssertionError \<and>
   (\<exists>c. fst (Constraint_init 0 (0::int) ''equality'') = Inr c \<and>
        equality_or_inequality c \<in> {''equality'', ''inequality''}) \<and>
   (\<exists>c. fst (Constraint_init 0 (0::int) ''inequality'') = Inr c \<and>
        equality_or_inequality c \<in> {''equality'', ''inequality''})"
  using Constraint_init_tag_check [of "''equal''" 0 "0::int"]
        Constraint_init_tag_check [of "''Equality''" 0 "0::int"]
        Constraint_init_tag_check [of "''equality''" 0 "0::int"]
        Constraint_init_tag_check [of "''inequality''" 0 "0::int"]
  by (simp add: Constraint_init_def)












section \<open>Properties of the package file\<close>

lemma import_star_all_names:
  "import_star imported_names all_names = Inl (AttributeError ''fixed_point.py'')"
  by (simp add: import_star_def imported_names_def all_names_def)

lemma unbound_all_names:
  "filter (\<lambda>name. name \<notin> set imported_names) all_names =
     [''fixed_point.py'', ''inexact_gradient.py'', ''inexact_gradient_step.py'',
      ''inexact_proximal_step.py'', ''linear_optimization_step.py'']"
  by (simp add: imported_names_def all_names_def)

lemma import_name_imported_names:
  "map (import_name imported_names) imported_names = map Inr imported_names"
  by (simp add: import_name_def imported_names_def)

lemma length_imported_names: "length imported_names = 9"
  by (simp add: imported_names_def)

lemma distinct_imported_names: "distinct imported_names"
  unfolding imported_names_def by code_simp

text \<open>
  C10. The wildcard import of the package fails: \<open>__all__\<close> lists five names ending in
  \<open>.py\<close> that are not bound in the package (the first of them, \<open>fixed_point.py\<close>, is the
  one the \<open>AttributeError\<close> reports), although the functions are bound under their plain
  names; the import by name of each of the nine step functions succeeds.
\<close>

theorem wildcard_import_fails:
  "import_star imported_names all_names = Inl (AttributeError ''fixed_point.py'') \<and>
   filter (\<lambda>name. name \<notin> set imported_names) all_names =
     [''fixed_point.py'', ''inexact_gradient.py'', ''inexact_gradient_step.py'',
      ''inexact_proximal_step.py'', ''linear_optimization_step.py''] \<and>
   map (import_name imported_names) imported_names = map Inr imported_names \<and>
   length imported_names = 9 \<and> distinct imported_names"
  by (simp only: import_star_all_names unbound_all_names import_name_imported_names
        length_imported_names distinct_imported_names simp_thms)

section \<open>Properties of Point creation\<close>

lemma exec_point_cmd_counter:
  "exec_point_cmd s c = (p, s') \<Longrightarrow>
   (c = NewLeaf \<longrightarrow> Point.counter p = Some (Point_counter s) \<and>
                    Point_counter s' = Suc (Point_counter s)) \<and>
   (c \<noteq> NewLeaf \<longrightarrow> Point.counter p = None \<and> Point_counter s' = Point_counter s)"
  by (cases c)
     (auto simp add: Point_leaf_def Point_combination_def Point_add_def Point_sub_def
        Point_rmul_def Point_neg_def)

lemma run_point_cmds_indices:
  "run_point_cmds s cmds = (ps, s') \<Longrightarrow>
   length ps = length cmds \<and> Point_counter s \<le> Point_counter s' \<and>
   List.map_filter Point.counter ps = [Point_counter s..<Point_counter s'] \<and>
   (\<forall>i<length cmds.
      (cmds ! i = NewLeaf \<longrightarrow>
         (\<exists>k. Point.counter (ps ! i) = Some k \<and> Point_counter s \<le> k \<and> k < Point_counter s')) \<and>
      (cmds ! i \<noteq> NewLeaf \<longrightarrow> Point.counter (ps ! i) = None))"
proof (induction cmds arbitrary: s ps s')
  case Nil
  then show ?case by simp
next
  case (Cons c cmds)
  obtain p s1 where step: "exec_point_cmd s c = (p, s1)"
    by (cases "exec_point_cmd s c") auto
  obtain ps1 s2 where rest: "run_point_cmds s1 cmds = (ps1, s2)"
    by (cases "run_point_cmds s1 cmds") auto
  from Cons.prems step rest have ps: "ps = p # ps1" and s': "s' = s2"
    by simp_all
  note IH = Cons.IH[OF rest]
  note one = exec_point_cmd_counter[OF step]
  have len: "length ps = length (c # cmds)"
    using IH ps by simp
  have mono: "Point_counter s \<le> Point_counter s'"
    using IH one s' by (cases "c = NewLeaf") auto
  have idx: "List.map_filter Point.counter ps = [Point_counter s..<Point_counter s']"
  proof (cases "c = NewLeaf")
    case True
    with one have p: "Point.counter p = Some (Point_counter s)"
      and s1: "Point_counter s1 = Suc (Point_counter s)" by simp_all
    from IH s1 s' have "Point_counter s < Point_counter s'" by simp
    then have "[Point_counter s..<Point_counter s'] =
                 Point_counter s # [Suc (Point_counter s)..<Point_counter s']"
      by (rule upt_conv_Cons)
    with IH p s1 s' ps show ?thesis
      by simp
  next
    case False
    with one have "Point.counter p = None" and "Point_counter s1 = Point_counter s"
      by simp_all
    with IH s' ps show ?thesis
      by simp
  qed
  have each: "(cmds' ! i = NewLeaf \<longrightarrow>
         (\<exists>k. Point.counter (ps ! i) = Some k \<and> Point_counter s \<le> k \<and> k < Point_counter s')) \<and>
      (cmds' ! i \<noteq> NewLeaf \<longrightarrow> Point.counter (ps ! i) = None)"
    if "i < length cmds'" and "cmds' = c # cmds" for i cmds'
  proof (cases i)
    case 0
    show ?thesis
    proof (cases "c = NewLeaf")
      case True
      with one IH s' have "Point.counter p = Some (Point_counter s)"
        and "Point_counter s < Point_counter s'" by simp_all
      with 0 ps that(2) True show ?thesis by simp
    next
      case False
      with one have "Point.counter p = None" by simp
      with 0 ps that(2) False show ?thesis by simp
    qed
  next
    case (Suc j)
    with that have j: "j < length cmds" by simp
    from one have "Point_counter s \<le> Point_counter s1"
      by (cases "c = NewLeaf") simp_all
    with IH j Suc ps s' that(2) show ?thesis
      by (auto intro: order_trans)
  qed
  show ?case
    using len mono idx each by blast
qed

text \<open>
  The four assertions of \<^verbatim>\<open>test_counter\<close> (lines 60-63) hold in the model, from any state
  the previous \<^verbatim>\<open>tearDown\<close> leaves.
\<close>

lemma setUp_counters:
  "case setUp (tearDown s) of
     (func, xs, x0, x1) \<Rightarrow>
       Function.counter func = 0 \<and> Point.counter xs = Some 0 \<and> Point.counter x0 = Some 1 \<and>
       Point.counter x1 = None"
  by (simp add: setUp_def tearDown_def declare_function_def Function_stationary_point_def
      set_initial_point_def Function_gradient_def Function_oracle_def same_object_def
      Point_leaf_def Point_combination_def Expression_leaf_def Point_rmul_def Point_sub_def
      Let_def)

text \<open>
  The claim C4 as it is stated fails: the point \<open>x1 = x0 - gamma * gradient\<close> of the test
  fixture has no integer creation index.
\<close>

theorem composite_point_has_no_index:
  "\<not> (\<exists>k. Point.counter
             (snd (snd (snd (setUp \<lparr>Point_counter = 0, Expression_counter = 0,
                                    Function_counter = 0, next_ref = 0\<rparr>)))) = Some k)"
  by (simp add: setUp_def declare_function_def Function_stationary_point_def
      set_initial_point_def Function_gradient_def Function_oracle_def same_object_def
      Point_leaf_def Point_combination_def Expression_leaf_def Point_rmul_def Point_sub_def
      Let_def)

text \<open>
  C4, amended. In any sequence of operations that create Points, every leaf (an initial
  point, a stationary point, the gradient of a new oracle call) carries a creation
  index taken from the Point counter; the indices of the leaves, in creation order, are
  the consecutive numbers from the counter's value at the start to its value at the
  end, so they are unique and strictly increasing. A composite built by arithmetic
  (such as \<open>x0 - gamma * gradient\<close>) carries no creation index: its counter is \<open>None\<close>.
\<close>

theorem point_creation_indices:
  assumes "run_point_cmds s cmds = (ps, s')"
  shows "length ps = length cmds \<and>
         List.map_filter Point.counter ps = [Point_counter s..<Point_counter s'] \<and>
         (\<forall>i<length cmds.
            (cmds ! i = NewLeaf \<longrightarrow>
               (\<exists>k. Point.counter (ps ! i) = Some k \<and> Point_counter s \<le> k \<and>
                    k < Point_counter s')) \<and>
            (cmds ! i \<noteq> NewLeaf \<longrightarrow> Point.counter (ps ! i) = None))"
  using run_point_cmds_indices[OF assms] by blast

theorem point_creation_indices_witness:
  "map Point.counter
     (fst (run_point_cmds
        \<lparr>Point_counter = 0, Expression_counter = 0, Function_counter = 0, next_ref = 0\<rparr>
        [NewLeaf, NewLeaf,
         Sub \<lparr>ref = 1, counter = Some 1, decomposition_dict = [(1, 1)]\<rparr>
             \<lparr>ref = 0, counter = Some 0, decomposition_dict = [(0, 1)]\<rparr>,
         NewLeaf,
         Rmul 1 \<lparr>ref = 3, counter = Some 2, decomposition_dict = [(2, 1)]\<rparr>]))
   = [Some 0, Some 1, None, Some 2, None]"
  using point_creation_indices
    [of "\<lparr>Point_counter = 0, Expression_counter = 0, Function_counter = 0, next_ref = 0\<rparr>"
        "[NewLeaf, NewLeaf,
         Sub \<lparr>ref = 1, counter = Some 1, decomposition_dict = [(1, 1)]\<rparr>
             \<lparr>ref = 0, counter = Some 0, decomposition_dict = [(0, 1)]\<rparr>,
         NewLeaf,
         Rmul 1 \<lparr>ref = 3, counter = Some 2, decomposition_dict = [(2, 1)]\<rparr>]"
        "fst (run_point_cmds
        \<lparr>Point_counter = 0, Expression_counter = 0, Function_counter = 0, next_ref = 0\<rparr>
        [NewLeaf, NewLeaf,
         Sub \<lparr>ref = 1, counter = Some 1, decomposition_dict = [(1, 1)]\<rparr>
             \<lparr>ref = 0, counter = Some 0, decomposition_dict = [(0, 1)]\<rparr>,
         NewLeaf,
         Rmul 1 \<lparr>ref = 3, counter = Some 2, decomposition_dict = [(2, 1)]\<rparr>])"
        "snd (run_point_cmds
        \<lparr>Point_counter = 0, Expression_counter = 0, Function_counter = 0, next_ref = 0\<rparr>
        [NewLeaf, NewLeaf,
         Sub \<lparr>ref = 1, counter = Some 1, decomposition_dict = [(1, 1)]\<rparr>
             \<lparr>ref = 0, counter = Some 0, decomposition_dict = [(0, 1)]\<rparr>,
         NewLeaf,
         Rmul 1 \<lparr>ref = 3, counter = Some 2, decomposition_dict = [(2, 1)]\<rparr>])"]
  by (simp add: Point_leaf_def Point_combination_def Point_sub_def Point_rmul_def)

section \<open>Properties of the oracle\<close>

lemma find_append_Some: "find P xs = Some y \<Longrightarrow> find P (xs @ ys) = Some y"
  by (induction xs) auto

lemma find_append_None: "find P xs = None \<Longrightarrow> find P (xs @ ys) = find P ys"
  by (induction xs) (auto split: if_splits)

lemma oracle_hit:
  "reuse_gradient f \<Longrightarrow> find (same_object p) (list_of_points f) = Some (x, g, v) \<Longrightarrow>
   Function_oracle s f p = ((g, v), f, s)"
  by (simp add: Function_oracle_def)

lemma oracle_miss:
  "find (same_object q) (list_of_points f) = None \<Longrightarrow>
   fst (fst (Function_oracle s f q)) = fst (Point_leaf s)"
  by (simp add: Function_oracle_def Point_leaf_def Expression_leaf_def)

lemma oracle_records:
  assumes "reuse_gradient f" and "Function_oracle s f p = ((g, v), f', s')"
  shows "\<exists>x. find (same_object p) (list_of_points f') = Some (x, g, v)"
proof (cases "find (same_object p) (list_of_points f)")
  case None
  with assms show ?thesis
    by (auto simp add: Function_oracle_def Point_leaf_def Expression_leaf_def find_append_None
          same_object_def)
next
  case (Some a)
  with assms show ?thesis
    by (cases a) (auto simp add: Function_oracle_def)
qed

lemma oracle_extends:
  "Function_oracle s f p = (r, f', s') \<Longrightarrow>
   reuse_gradient f' = reuse_gradient f \<and> (\<exists>more. list_of_points f' = list_of_points f @ more)"
  by (auto simp add: Function_oracle_def Point_leaf_def Expression_leaf_def
        split: option.splits prod.splits if_splits)

lemma stationary_point_extends:
  "Function_stationary_point s f = (r, f', s') \<Longrightarrow>
   reuse_gradient f' = reuse_gradient f \<and> (\<exists>more. list_of_points f' = list_of_points f @ more)"
  by (auto simp add: Function_stationary_point_def Point_leaf_def Expression_leaf_def
        Point_combination_def)

lemma function_calls_extends:
  "reuse_gradient (function_calls f calls) = reuse_gradient f \<and>
   (\<exists>more. list_of_points (function_calls f calls) = list_of_points f @ more)"
proof (induction f calls rule: function_calls.induct)
  case (1 f)
  then show ?case by simp
next
  case (2 f s p calls)
  obtain r f1 s1 where step: "Function_oracle s f p = (r, f1, s1)"
    by (cases "Function_oracle s f p") auto
  with 2 have "reuse_gradient (function_calls f1 calls) = reuse_gradient f1 \<and>
               (\<exists>more. list_of_points (function_calls f1 calls) = list_of_points f1 @ more)"
    by simp
  with oracle_extends[OF step] step show ?case by auto
next
  case (3 f s calls)
  obtain r f1 s1 where step: "Function_stationary_point s f = (r, f1, s1)"
    by (cases "Function_stationary_point s f") auto
  with 3 have "reuse_gradient (function_calls f1 calls) = reuse_gradient f1 \<and>
               (\<exists>more. list_of_points (function_calls f1 calls) = list_of_points f1 @ more)"
    by simp
  with stationary_point_extends[OF step] step show ?case by auto
qed

text \<open>
  C9. For a function of a differentiable class, once an oracle call at a Point object
  has returned a gradient and a value, every later call at the same object returns
  that gradient Point and that value atom themselves and allocates nothing (the
  function and the counters are as before the call): in every state of the counters,
  and after any number of other oracle or stationary-point calls on the function,
  each made in any state, so whatever was created in between. The lookup is by the
  identity of the object: any Point with the same identity gets the recorded pair, and
  a Point object that is not recorded gets a newly allocated leaf gradient, whatever
  its decomposition.
\<close>

theorem oracle_reuses_recorded_gradient:
  assumes "reuse_gradient f"
      and "Function_oracle s f p = ((g, v), f1, s1)"
      and "f2 = function_calls f1 calls"
  shows "Function_oracle s2 f2 p = ((g, v), f2, s2) \<and>
         (\<forall>q. Point.ref q = Point.ref p \<longrightarrow> Function_oracle s2 f2 q = ((g, v), f2, s2)) \<and>
         (\<forall>q. find (same_object q) (list_of_points f2) = None \<longrightarrow>
              fst (fst (Function_oracle s2 f2 q)) = fst (Point_leaf s2))"
proof -
  from oracle_records[OF assms(1,2)] obtain x where
    hit: "find (same_object p) (list_of_points f1) = Some (x, g, v)"
    by blast
  from oracle_extends[OF assms(2)] assms(1) have r1: "reuse_gradient f1"
    by simp
  from function_calls_extends[of f1 calls] assms(3) obtain more where
    r2: "reuse_gradient f2 = reuse_gradient f1"
    and ext: "list_of_points f2 = list_of_points f1 @ more"
    by blast
  from hit ext have found: "find (same_object p) (list_of_points f2) = Some (x, g, v)"
    by (simp add: find_append_Some)
  have same: "Function_oracle s2 f2 q = ((g, v), f2, s2)" if "Point.ref q = Point.ref p" for q
  proof -
    from that have "same_object q = same_object p"
      by (simp add: same_object_def)
    with found r1 r2 show ?thesis
      by (simp add: oracle_hit)
  qed
  from same[of p] same oracle_miss show ?thesis
    by blast
qed

text \<open>
  A function \<open>h\<close> declared with \<open>reuse_gradient\<close> and its oracle called at the initial point
  \<open>x0\<close>; then the composite \<open>y = x0 / 2 + x0 / 2\<close> is created, which has the decomposition
  of \<open>x0\<close> and is another object, and the oracle called at \<open>y\<close> allocates a new gradient;
  the next call at \<open>x0\<close> returns the first gradient and value again and leaves the
  counters as they are.
\<close>

theorem oracle_reuses_recorded_gradient_witness:
  "Function_oracle
     \<lparr>Point_counter = 1, Expression_counter = 0, Function_counter = 1, next_ref = 1\<rparr>
     \<lparr>Function.counter = 0, reuse_gradient = True, list_of_points = []\<rparr>
     \<lparr>ref = 0, counter = Some 0, decomposition_dict = [(0, 1)]\<rparr>
   = ((\<lparr>ref = 1, counter = Some 1, decomposition_dict = [(1, 1)]\<rparr>,
       \<lparr>Expression.counter = Some 0, constant_part = 0, linear = [(0, 1)], quadratic = []\<rparr>),
      \<lparr>Function.counter = 0, reuse_gradient = True,
        list_of_points =
          [(\<lparr>ref = 0, counter = Some 0, decomposition_dict = [(0, 1)]\<rparr>,
            \<lparr>ref = 1, counter = Some 1, decomposition_dict = [(1, 1)]\<rparr>,
            \<lparr>Expression.counter = Some 0, constant_part = 0, linear = [(0, 1)],
               quadratic = []\<rparr>)]\<rparr>,
      \<lparr>Point_counter = 2, Expression_counter = 1, Function_counter = 1, next_ref = 2\<rparr>) \<and>
   Point_combination
     \<lparr>Point_counter = 2, Expression_counter = 1, Function_counter = 1, next_ref = 2\<rparr>
     [(\<lparr>ref = 0, counter = Some 0, decomposition_dict = [(0, 1)]\<rparr>, 1 / 2),
      (\<lparr>ref = 0, counter = Some 0, decomposition_dict = [(0, 1)]\<rparr>, 1 / 2)]
   = (\<lparr>ref = 2, counter = None, decomposition_dict = [(0, 1)]\<rparr>,
      \<lparr>Point_counter = 2, Expression_counter = 1, Function_counter = 1, next_ref = 3\<rparr>) \<and>
   fst (Function_oracle
     \<lparr>Point_counter = 2, Expression_counter = 1, Function_counter = 1, next_ref = 3\<rparr>
     \<lparr>Function.counter = 0, reuse_gradient = True,
        list_of_points =
          [(\<lparr>ref = 0, counter = Some 0, decomposition_dict = [(0, 1)]\<rparr>,
            \<lparr>ref = 1, counter = Some 1, decomposition_dict = [(1, 1)]\<rparr>,
            \<lparr>Expression.counter = Some 0, constant_part = 0, linear = [(0, 1)],
               quadratic = []\<rparr>)]\<rparr>
     \<lparr>ref = 2, counter = None, decomposition_dict = [(0, 1)]\<rparr>)
   = (\<lparr>ref = 3, counter = Some 2, decomposition_dict = [(2, 1)]\<rparr>,
      \<lparr>Expression.counter = Some 1, constant_part = 0, linear = [(1, 1)], quadratic = []\<rparr>) \<and>
   fst (Function_oracle
     \<lparr>Point_counter = 3, Expression_counter = 2, Function_counter = 1, next_ref = 4\<rparr>
     (function_calls
        \<lparr>Function.counter = 0, reuse_gradient = True,
          list_of_points =
            [(\<lparr>ref = 0, counter = Some 0, decomposition_dict = [(0, 1)]\<rparr>,
              \<lparr>ref = 1, counter = Some 1, decomposition_dict = [(1, 1)]\<rparr>,
              \<lparr>Expression.counter = Some 0, constant_part = 0, linear = [(0, 1)],
                 quadratic = []\<rparr>)]\<rparr>
        [Oracle \<lparr>Point_counter = 2, Expression_counter = 1, Function_counter = 1, next_ref = 3\<rparr>
                \<lparr>ref = 2, counter = None, decomposition_dict = [(0, 1)]\<rparr>])
     \<lparr>ref = 0, counter = Some 0, decomposition_dict = [(0, 1)]\<rparr>)
   = (\<lparr>ref = 1, counter = Some 1, decomposition_dict = [(1, 1)]\<rparr>,
      \<lparr>Expression.counter = Some 0, constant_part = 0, linear = [(0, 1)], quadratic = []\<rparr>) \<and>
   snd (snd (Function_oracle
     \<lparr>Point_counter = 3, Expression_counter = 2, Function_counter = 1, next_ref = 4\<rparr>
     (function_calls
        \<lparr>Function.counter = 0, reuse_gradient = True,
          list_of_points =
            [(\<lparr>ref = 0, counter = Some 0, decomposition_dict = [(0, 1)]\<rparr>,
              \<lparr>ref = 1, counter = Some 1, decomposition_dict = [(1, 1)]\<rparr>,
              \<lparr>Expression.counter = Some 0, constant_part = 0, linear = [(0, 1)],
                 quadratic = []\<rparr>)]\<rparr>
        [Oracle \<lparr>Point_counter = 2, Expression_counter = 1, Function_counter = 1, next_ref = 3\<rparr>
                \<lparr>ref = 2, counter = None, decomposition_dict = [(0, 1)]\<rparr>])
     \<lparr>ref = 0, counter = Some 0, decomposition_dict = [(0, 1)]\<rparr>))
   = \<lparr>Point_counter = 3, Expression_counter = 2, Function_counter = 1, next_ref = 4\<rparr>"
  using oracle_reuses_recorded_gradient
    [of "\<lparr>Function.counter = 0, reuse_gradient = True, list_of_points = []\<rparr>"
        "\<lparr>Point_counter = 1, Expression_counter = 0, Function_counter = 1, next_ref = 1\<rparr>"
        "\<lparr>ref = 0, counter = Some 0, decomposition_dict = [(0, 1)]\<rparr>"
        "\<lparr>ref = 1, counter = Some 1, decomposition_dict = [(1, 1)]\<rparr>"
        "\<lparr>Expression.counter = Some 0, constant_part = 0, linear = [(0, 1)], quadratic = []\<rparr>"
        "\<lparr>Function.counter = 0, reuse_gradient = True,
          list_of_points =
            [(\<lparr>ref = 0, counter = Some 0, decomposition_dict = [(0, 1)]\<rparr>,
              \<lparr>ref = 1, counter = Some 1, decomposition_dict = [(1, 1)]\<rparr>,
              \<lparr>Expression.counter = Some 0, constant_part = 0, linear = [(0, 1)],
                 quadratic = []\<rparr>)]\<rparr>"
        "\<lparr>Point_counter = 2, Expression_counter = 1, Function_counter = 1, next_ref = 2\<rparr>"
        "function_calls
        \<lparr>Function.counter = 0, reuse_gradient = True,
          list_of_points =
            [(\<lparr>ref = 0, counter = Some 0, decomposition_dict = [(0, 1)]\<rparr>,
              \<lparr>ref = 1, counter = Some 1, decomposition_dict = [(1, 1)]\<rparr>,
              \<lparr>Expression.counter = Some 0, constant_part = 0, linear = [(0, 1)],
                 quadratic = []\<rparr>)]\<rparr>
        [Oracle \<lparr>Point_counter = 2, Expression_counter = 1, Function_counter = 1, next_ref = 3\<rparr>
                \<lparr>ref = 2, counter = None, decomposition_dict = [(0, 1)]\<rparr>]"
        "[Oracle \<lparr>Point_counter = 2, Expression_counter = 1, Function_counter = 1, next_ref = 3\<rparr>
                \<lparr>ref = 2, counter = None, decomposition_dict = [(0, 1)]\<rparr>]"
        "\<lparr>Point_counter = 3, Expression_counter = 2, Function_counter = 1, next_ref = 4\<rparr>"]
  by (simp add: Function_oracle_def same_object_def Point_leaf_def Point_combination_def
        Expression_leaf_def flatten_def merge_scaled_def)

end
